theory Spec2Isabelle
  imports Complex_Main
begin

section \<open>Data model (lib/api.ts)\<close>

text \<open>
  A browser \<open>File\<close>: its name, its declared MIME type and its size in bytes.
\<close>

record File =
  file_name :: string
  file_type :: string
  file_size :: nat

record VideoSegment =
  start_seconds :: real
  end_seconds :: real
  energy :: string
  mood :: string
  visual_description :: string
  musical_suggestion :: string

record AudioProfile =
  has_speech :: bool
  has_ambient_sound :: bool
  is_silent :: bool
  recommended_mix :: string
  mix_reasoning :: string

record StyleSuggestion =
  label :: string
  modifier :: string

text \<open>
  \<open>VideoAnalysis.bpm\<close> is named \<open>analysis_bpm\<close> here, since the page keeps a state
  variable \<open>bpm\<close> of its own.
\<close>

record VideoAnalysis =
  analysis_bpm :: int
  key :: string
  overall_mood :: string
  energy_arc :: string
  audio_profile :: AudioProfile
  segments :: "VideoSegment list"
  style_suggestions :: "StyleSuggestion list"
  primary_prompt :: string
  negative_prompt :: string
  reasoning :: string

record MusicVariation =
  file_id :: string
  audio_url :: string
  style_label :: string
  duration_seconds :: real

record VariationsResult =
  result_variations :: "MusicVariation list"

record MergeResult =
  video_url :: string
  merged_duration_seconds :: real

section \<open>The HTTP client (lib/api.ts)\<close>

text \<open>
  What \<open>fetch\<close> is called with. \<open>path\<close> is the part of the URL after \<open>API_URL\<close>, a
  constant of the deployment. A multipart body is the list of appended fields, in order;
  a JSON body is kept structured (\<open>JSON.stringify\<close> of the values shown).
\<close>

datatype form_value =
    FileField File
  | TextField string
  | SegmentsJson "VideoSegment list"

datatype request_body =
    NoBody
  | FormData "(string \<times> form_value) list"
  | GenerateJson string string string int "StyleSuggestion list"

record request =
  path :: string
  http_method :: string
  headers :: "(string \<times> string) list"
  body :: request_body

text \<open>
  What the network does with one call, seen from the client:
  \<^item> \<open>Rejected m\<close>: \<open>fetch\<close> rejects (a network exception), with an \<open>Error\<close> of message \<open>m\<close>;
  \<^item> \<open>Ok_response b\<close>: \<open>res.ok\<close> holds; \<open>res.json()\<close> rejects with an \<open>Error\<close> of
    message \<open>m\<close> when \<open>b = Inl m\<close> (the body does not parse) and yields \<open>v\<close> when
    \<open>b = Inr v\<close>;
  \<^item> \<open>Not_ok_response b\<close>: \<open>res.ok\<close> is false; the body does not parse (\<open>Inl m\<close>) or
    parses to an object whose \<open>detail\<close> field is \<open>d\<close> (\<open>Inr d\<close>, \<open>None\<close> when the
    field is absent).
  A parsed body has the type the client's signature gives it.
\<close>

datatype 'a response =
    Rejected string
  | Ok_response "string + 'a"
  | Not_ok_response "string + string option"

text \<open>
  What a \<open>catch (e)\<close> can receive: an \<open>Error\<close> instance with its message, or any other
  value.
\<close>

datatype thrown = Error string | Thrown_other

text \<open>\<open>err.detail || fallback\<close>: an absent or empty detail is falsy.\<close>

definition detail_or :: "string option \<Rightarrow> string \<Rightarrow> string" where
  "detail_or d fallback =
     (case d of None \<Rightarrow> fallback | Some s \<Rightarrow> if s = [] then fallback else s)"

text \<open>
  The error branch shared by the three flow-blocking calls:
  \<^verbatim>\<open>const err = await res.json().catch(() => ({ detail: caught }));
  throw new Error(err.detail || fallback);\<close>
\<close>

definition error_of_body :: "string + string option \<Rightarrow> string \<Rightarrow> string \<Rightarrow> thrown" where
  "error_of_body b caught fallback =
     Error (detail_or (case b of Inl _ \<Rightarrow> Some caught | Inr d \<Rightarrow> d) fallback)"

text \<open>
  Each operation returns the request it issues and what its promise settles to:
  \<open>Inl e\<close> when it rejects with \<open>e\<close>, \<open>Inr v\<close> when it resolves to \<open>v\<close>.
\<close>

definition analyzeVideo ::
  "File \<Rightarrow> string \<Rightarrow> VideoAnalysis response \<Rightarrow> request \<times> (thrown + VideoAnalysis)" where
  "analyzeVideo file userToken res =
     (\<lparr>path = ''/api/video/analyze'', http_method = ''POST'',
       headers = [(''x-user-id'', userToken)],
       body = FormData [(''file'', FileField file)]\<rparr>,
      case res of
        Rejected m \<Rightarrow> Inl (Error m)
      | Not_ok_response b \<Rightarrow> Inl (error_of_body b ''Analysis failed'' ''Video analysis failed'')
      | Ok_response b \<Rightarrow> (case b of Inl m \<Rightarrow> Inl (Error m) | Inr v \<Rightarrow> Inr v))"

definition generateVariations ::
  "string \<Rightarrow> string \<Rightarrow> string \<Rightarrow> int \<Rightarrow> string \<Rightarrow> StyleSuggestion list \<Rightarrow>
   VariationsResult response \<Rightarrow> request \<times> (thrown + VariationsResult)" where
  "generateVariations prompt' negativePrompt' mood' bpm' userToken styleSuggestions res =
     (\<lparr>path = ''/api/music/generate-variations'', http_method = ''POST'',
       headers = [(''Content-Type'', ''application/json''), (''x-user-id'', userToken)],
       body = GenerateJson prompt' negativePrompt' mood' bpm' styleSuggestions\<rparr>,
      case res of
        Rejected m \<Rightarrow> Inl (Error m)
      | Not_ok_response b \<Rightarrow> Inl (error_of_body b ''Generation failed'' ''Music generation failed'')
      | Ok_response b \<Rightarrow> (case b of Inl m \<Rightarrow> Inl (Error m) | Inr v \<Rightarrow> Inr v))"

definition mergeVideoAudio ::
  "File \<Rightarrow> string \<Rightarrow> string \<Rightarrow> VideoSegment list \<Rightarrow>
   MergeResult response \<Rightarrow> request \<times> (thrown + MergeResult)" where
  "mergeVideoAudio videoFile' fileId mixMode segments' res =
     (\<lparr>path = ''/api/music/merge'', http_method = ''POST'',
       headers = [],
       body = FormData [(''video'', FileField videoFile'), (''file_id'', TextField fileId),
                        (''mix_mode'', TextField mixMode),
                        (''segments_json'', SegmentsJson segments')]\<rparr>,
      case res of
        Rejected m \<Rightarrow> Inl (Error m)
      | Not_ok_response b \<Rightarrow> Inl (error_of_body b ''Merge failed'' ''Video merge failed'')
      | Ok_response b \<Rightarrow> (case b of Inl m \<Rightarrow> Inl (Error m) | Inr v \<Rightarrow> Inr v))"

text \<open>
  The credits calls have no \<open>catch\<close>: only \<open>!res.ok\<close> returns 0. The parsed body is the
  object's \<open>credits\<close> field.
\<close>

definition getCredits :: "string \<Rightarrow> int response \<Rightarrow> request \<times> (thrown + int)" where
  "getCredits userToken res =
     (\<lparr>path = ''/api/credits/balance'', http_method = ''GET'',
       headers = [(''x-user-id'', userToken)], body = NoBody\<rparr>,
      case res of
        Rejected m \<Rightarrow> Inl (Error m)
      | Not_ok_response b \<Rightarrow> Inr 0
      | Ok_response b \<Rightarrow> (case b of Inl m \<Rightarrow> Inl (Error m) | Inr c \<Rightarrow> Inr c))"

definition initializeCredits :: "string \<Rightarrow> int response \<Rightarrow> request \<times> (thrown + int)" where
  "initializeCredits userToken res =
     (\<lparr>path = ''/api/credits/initialize'', http_method = ''POST'',
       headers = [(''x-user-id'', userToken)], body = NoBody\<rparr>,
      case res of
        Rejected m \<Rightarrow> Inl (Error m)
      | Not_ok_response b \<Rightarrow> Inr 0
      | Ok_response b \<Rightarrow> (case b of Inl m \<Rightarrow> Inl (Error m) | Inr c \<Rightarrow> Inr c))"

section \<open>The step controller (app/page.tsx, Home)\<close>

datatype Step = Upload | Analyzing | Edit | Generating | Pick | Merging | Done

text \<open>The \<open>useState\<close> variables of \<open>Home\<close>, with their names.\<close>

record Home =
  step :: Step
  videoFile :: "File option"
  videoUrl :: string
  analysis :: "VideoAnalysis option"
  prompt :: string
  negativePrompt :: string
  bpm :: int
  variations :: "MusicVariation list"
  selectedVariation :: "MusicVariation option"
  mergedVideoUrl :: string
  error :: string
  credits :: "int option"

definition initial_Home :: Home where
  "initial_Home =
     \<lparr>step = Upload, videoFile = None, videoUrl = '''', analysis = None, prompt = '''',
      negativePrompt = '''', bpm = 120, variations = [], selectedVariation = None,
      mergedVideoUrl = '''', error = '''', credits = None\<rparr>"

text \<open>\<open>e instanceof Error ? e.message : fallback\<close>\<close>

definition message_of :: "thrown \<Rightarrow> string \<Rightarrow> string" where
  "message_of e fallback = (case e of Error m \<Rightarrow> m | Thrown_other \<Rightarrow> fallback)"

text \<open>
  A handler transforms the page: the state of \<open>Home\<close> and the requests issued so far,
  oldest first. The response of each call the handler may make is an argument. A handler
  runs from its call to the settling of its promise with no other event in between:
  while a call is pending the step is \<open>analyzing\<close>, \<open>generating\<close> or \<open>merging\<close>, and
  the page renders the loading view alone.
\<close>

type_synonym page = "Home \<times> request list"

text \<open>
  \<open>refreshCredits\<close> awaits \<open>getCredits\<close> with no \<open>catch\<close>: it rejects when
  \<open>getCredits\<close> does (\<open>Some e\<close>), and otherwise stores the balance.
\<close>

definition refreshCredits :: "string \<Rightarrow> int response \<Rightarrow> page \<Rightarrow> thrown option \<times> page" where
  "refreshCredits userId cres = (\<lambda>(h, net).
     let (req, r) = getCredits userId cres in
     (case r of
        Inl e \<Rightarrow> (Some e, (h, net @ [req]))
      | Inr c \<Rightarrow> (None, (h\<lparr>credits := Some c\<rparr>, net @ [req]))))"

text \<open>\<open>createObjectURL\<close> is the browser's \<open>URL.createObjectURL\<close>.\<close>

definition handleUpload ::
  "(File \<Rightarrow> string) \<Rightarrow> string \<Rightarrow> VideoAnalysis response \<Rightarrow> File \<Rightarrow> page \<Rightarrow> page" where
  "handleUpload createObjectURL userId ares file = (\<lambda>(h, net).
     let h1 = h\<lparr>videoFile := Some file, videoUrl := createObjectURL file,
                error := '''', step := Analyzing\<rparr>;
         (req, r) = analyzeVideo file userId ares
     in (case r of
           Inr result \<Rightarrow>
             h1\<lparr>analysis := Some result, prompt := primary_prompt result,
                negativePrompt := negative_prompt result, bpm := analysis_bpm result,
                step := Edit\<rparr>
         | Inl e \<Rightarrow> h1\<lparr>error := message_of e ''Analysis failed'', step := Upload\<rparr>,
         net @ [req]))"

definition handleGenerate ::
  "string \<Rightarrow> VariationsResult response \<Rightarrow> int response \<Rightarrow> page \<Rightarrow> page" where
  "handleGenerate userId gres cres = (\<lambda>(h, net).
     case analysis h of
       None \<Rightarrow> (h, net)
     | Some a \<Rightarrow>
         let h1 = h\<lparr>error := '''', step := Generating\<rparr>;
             (req, r) = generateVariations (prompt h) (negativePrompt h) (overall_mood a)
                          (bpm h) userId (style_suggestions a) gres
         in (case r of
               Inl e \<Rightarrow> (h1\<lparr>error := message_of e ''Generation failed'', step := Edit\<rparr>,
                         net @ [req])
             | Inr result \<Rightarrow>
                 (case refreshCredits userId cres
                         (h1\<lparr>variations := result_variations result\<rparr>, net @ [req]) of
                    (None, (h2, net2)) \<Rightarrow> (h2\<lparr>step := Pick\<rparr>, net2)
                  | (Some e, (h2, net2)) \<Rightarrow>
                      (h2\<lparr>error := message_of e ''Generation failed'', step := Edit\<rparr>, net2))))"

definition handlePickVariation :: "MergeResult response \<Rightarrow> MusicVariation \<Rightarrow> page \<Rightarrow> page" where
  "handlePickVariation mres variation = (\<lambda>(h, net).
     case (videoFile h, analysis h) of
       (Some vf, Some a) \<Rightarrow>
         let h1 = h\<lparr>error := '''', selectedVariation := Some variation, step := Merging\<rparr>;
             (req, r) = mergeVideoAudio vf (file_id variation) ''social'' (segments a) mres
         in (case r of
               Inr result \<Rightarrow> h1\<lparr>mergedVideoUrl := video_url result, step := Done\<rparr>
             | Inl e \<Rightarrow> h1\<lparr>error := message_of e ''Merge failed'', step := Pick\<rparr>,
             net @ [req])
     | _ \<Rightarrow> (h, net))"

definition handleReset :: "page \<Rightarrow> page" where
  "handleReset = (\<lambda>(h, net).
     (h\<lparr>step := Upload, videoFile := None, videoUrl := '''', analysis := None,
        prompt := '''', negativePrompt := '''', bpm := 120, variations := [],
        selectedVariation := None, mergedVideoUrl := '''', error := ''''\<rparr>, net))"

section \<open>The upload validator (components/VideoUpload.tsx)\<close>

definition MAX_SIZE_MB :: nat where
  "MAX_SIZE_MB = 50"

definition MAX_DURATION_S :: nat where
  "MAX_DURATION_S = 30"

definition ALLOWED_TYPES :: "string list" where
  "ALLOWED_TYPES = [''video/mp4'', ''video/quicktime'', ''video/webm'', ''video/x-msvideo'']"

text \<open>The decimal digits of a natural number, most significant first.\<close>

definition digit :: "nat \<Rightarrow> char" where
  "digit d = ''0123456789'' ! d"

fun decimal :: "nat \<Rightarrow> string" where
  "decimal n = (if n < 10 then [digit n] else decimal (n div 10) @ [digit (n mod 10)])"

declare decimal.simps [simp del]

text \<open>
  Reading a digit string back: the number it denotes. This is the yardstick for what
  \<open>decimal\<close> prints, not part of the program.
\<close>

definition digit_value :: "char \<Rightarrow> nat" where
  "digit_value c = of_char c - 48"

definition decimal_value :: "string \<Rightarrow> nat" where
  "decimal_value s = foldl (\<lambda>a c. 10 * a + digit_value c) 0 s"

text \<open>
  The Number that \<open>video.duration\<close> holds: \<open>NaN\<close> while the length is not known,
  \<open>+Infinity\<close> for a medium of unbounded length, or a finite count of seconds (a
  double, which is a real). The same shape, over the integers, holds what \<open>Math.round\<close>
  returns for it.
\<close>

datatype 'a number = Finite 'a | Infinity | NaN

text \<open>\<open>x > y\<close> for a Number \<open>x\<close> and a finite \<open>y\<close>: false for \<open>NaN\<close>.\<close>

definition greater :: "real number \<Rightarrow> real \<Rightarrow> bool" where
  "greater x y = (case x of Finite r \<Rightarrow> r > y | Infinity \<Rightarrow> True | NaN \<Rightarrow> False)"

text \<open>
  \<open>Math.round\<close>: the nearest whole number, a tie going up; \<open>+Infinity\<close> and \<open>NaN\<close>
  are returned as they are.
\<close>

definition Math_round :: "real number \<Rightarrow> int number" where
  "Math_round x =
     (case x of Finite r \<Rightarrow> Finite (floor (r + 1 / 2)) | Infinity \<Rightarrow> Infinity | NaN \<Rightarrow> NaN)"

text \<open>
  A whole Number inside a template literal. Up to \<open>2^53\<close> in magnitude every whole
  number is a Number of its own and JavaScript prints its decimal digits. Above, it
  prints the shortest digits that read back as the same Number, zeros after them, and
  from \<open>10^21\<close> the exponent form (\<open>1e+21\<close>): that printing is the argument \<open>beyond\<close>,
  left to the language.
\<close>

definition number_to_string :: "(int \<Rightarrow> string) \<Rightarrow> int number \<Rightarrow> string" where
  "number_to_string beyond x =
     (case x of
        NaN \<Rightarrow> ''NaN''
      | Infinity \<Rightarrow> ''Infinity''
      | Finite i \<Rightarrow>
          if \<bar>i\<bar> \<le> 2 ^ 53
          then (if i < 0 then CHR ''-'' # decimal (nat (- i)) else decimal (nat i))
          else beyond i)"

text \<open>The \<open>useState\<close> variables of \<open>VideoUpload\<close>.\<close>

record VideoUpload =
  dragging :: bool
  validationError :: string

text \<open>
  \<open>file.size / (1024 * 1024)\<close> divides by a power of two, which is exact in floating
  point, so the comparison is the one on the reals.
\<close>

definition validate :: "File \<Rightarrow> string option" where
  "validate file =
     (if file_type file \<notin> set ALLOWED_TYPES
      then Some ''Unsupported format. Use MP4, MOV, WebM, or AVI.''
      else if real (file_size file) / (1024 * 1024) > real MAX_SIZE_MB
      then Some (''File too large. Maximum is '' @ decimal MAX_SIZE_MB @ ''MB.'')
      else None)"

text \<open>
  The component's callback \<open>onUpload\<close> acts on the state \<open>'w\<close> of whoever mounted the
  component. The handler of the probe's \<open>loadedmetadata\<close> event, for a video whose
  \<open>duration\<close> is the given Number:
\<close>

definition onloadedmetadata ::
  "(int \<Rightarrow> string) \<Rightarrow> (File \<Rightarrow> 'w \<Rightarrow> 'w) \<Rightarrow> File \<Rightarrow> real number \<Rightarrow>
   VideoUpload \<times> 'w \<Rightarrow> VideoUpload \<times> 'w" where
  "onloadedmetadata beyond onUpload file duration = (\<lambda>(u, w).
     if greater duration (real MAX_DURATION_S)
     then (u\<lparr>validationError :=
               ''Video is '' @ number_to_string beyond (Math_round duration)
                 @ ''s. Maximum is '' @ decimal MAX_DURATION_S @ ''s.''\<rparr>, w)
     else (u, onUpload file w))"

text \<open>
  \<open>checkDuration\<close> hands the file to a detached video element. \<open>probe file\<close> is what the
  browser reads from it: \<open>Some d\<close> when the metadata load and the event fires with
  \<open>video.duration\<close> being \<open>d\<close>, \<open>None\<close> when they do not and the event never fires.
\<close>

definition checkDuration ::
  "(int \<Rightarrow> string) \<Rightarrow> (File \<Rightarrow> 'w \<Rightarrow> 'w) \<Rightarrow> (File \<Rightarrow> real number option) \<Rightarrow> File \<Rightarrow>
   VideoUpload \<times> 'w \<Rightarrow> VideoUpload \<times> 'w" where
  "checkDuration beyond onUpload probe file =
     (case probe file of
        None \<Rightarrow> id
      | Some d \<Rightarrow> onloadedmetadata beyond onUpload file d)"

text \<open>\<open>if (err)\<close> takes \<open>null\<close> and the empty string as no error.\<close>

definition handleFile ::
  "(int \<Rightarrow> string) \<Rightarrow> (File \<Rightarrow> 'w \<Rightarrow> 'w) \<Rightarrow> (File \<Rightarrow> real number option) \<Rightarrow> File \<Rightarrow>
   VideoUpload \<times> 'w \<Rightarrow> VideoUpload \<times> 'w" where
  "handleFile beyond onUpload probe file = (\<lambda>(u, w).
     let u1 = u\<lparr>validationError := ''''\<rparr> in
     (case validate file of
        Some err \<Rightarrow>
          if err \<noteq> [] then (u1\<lparr>validationError := err\<rparr>, w)
          else checkDuration beyond onUpload probe file (u1, w)
      | None \<Rightarrow> checkDuration beyond onUpload probe file (u1, w)))"

text \<open>A drop carries the list of dragged files; the first one, if any, is handled.\<close>

definition handleDrop ::
  "(int \<Rightarrow> string) \<Rightarrow> (File \<Rightarrow> 'w \<Rightarrow> 'w) \<Rightarrow> (File \<Rightarrow> real number option) \<Rightarrow> File list \<Rightarrow>
   VideoUpload \<times> 'w \<Rightarrow> VideoUpload \<times> 'w" where
  "handleDrop beyond onUpload probe files = (\<lambda>(u, w).
     let u1 = u\<lparr>dragging := False\<rparr> in
     (case files of
        [] \<Rightarrow> (u1, w)
      | file # _ \<Rightarrow> handleFile beyond onUpload probe file (u1, w)))"

section \<open>The variation picker (components/VariationPicker.tsx)\<close>

text \<open>
  The audio element behind \<open>audioRef\<close>: its source and whether the last command it got
  was \<open>pause()\<close>.
\<close>

record audio_element =
  src :: string
  paused :: bool

text \<open>
  The component's state: \<open>playing\<close> and \<open>selected\<close> are its \<open>useState\<close> variables,
  \<open>audioRef\<close> is \<open>audioRef.current\<close>, \<open>null\<close> until the component is mounted. The
  \<open>variations\<close> are a property the component is rendered with.
\<close>

record VariationPicker =
  playing :: "string option"
  selected :: string
  audioRef :: "audio_element option"

definition VariationPicker_initial :: "MusicVariation list \<Rightarrow> VariationPicker" where
  "VariationPicker_initial vs =
     \<lparr>playing = None,
      selected = (case vs of
                    [] \<Rightarrow> ''''
                  | v # _ \<Rightarrow> if file_id v = [] then '''' else file_id v),
      audioRef = None\<rparr>"

definition mounted :: "VariationPicker \<Rightarrow> VariationPicker" where
  "mounted p = p\<lparr>audioRef := Some \<lparr>src = '''', paused = True\<rparr>\<rparr>"

definition togglePlay :: "MusicVariation \<Rightarrow> VariationPicker \<Rightarrow> VariationPicker" where
  "togglePlay variation p =
     (case audioRef p of
        None \<Rightarrow> p
      | Some audio \<Rightarrow>
          if playing p = Some (file_id variation)
          then p\<lparr>audioRef := Some (audio\<lparr>paused := True\<rparr>), playing := None\<rparr>
          else p\<lparr>audioRef := Some (audio\<lparr>src := audio_url variation, paused := False\<rparr>),
                 playing := Some (file_id variation), selected := file_id variation\<rparr>)"

definition onEnded :: "VariationPicker \<Rightarrow> VariationPicker" where
  "onEnded p = p\<lparr>playing := None\<rparr>"

text \<open>
  \<open>handleSelect\<close>, the confirm button: \<open>onPick\<close> acts on the state \<open>'w\<close> of whoever
  mounted the picker.
\<close>

definition handleSelect ::
  "(MusicVariation \<Rightarrow> 'w \<Rightarrow> 'w) \<Rightarrow> MusicVariation list \<Rightarrow>
   VariationPicker \<times> 'w \<Rightarrow> VariationPicker \<times> 'w" where
  "handleSelect onPick vs = (\<lambda>(p, w).
     case find (\<lambda>v. file_id v = selected p) vs of
       None \<Rightarrow> (p, w)
     | Some v \<Rightarrow> (p, onPick v w))"

text \<open>
  The events that reach the picker's own state while it is mounted with the variations
  \<open>vs\<close>: the mounting, a click on the card of a variation, the end of the playback.
\<close>

datatype picker_event = Mount | Click MusicVariation | Ended

definition picker_step :: "VariationPicker \<Rightarrow> picker_event \<Rightarrow> VariationPicker" where
  "picker_step p e =
     (case e of
        Mount \<Rightarrow> mounted p
      | Click v \<Rightarrow> togglePlay v p
      | Ended \<Rightarrow> onEnded p)"

definition picker_run :: "MusicVariation list \<Rightarrow> picker_event list \<Rightarrow> VariationPicker" where
  "picker_run vs es = foldl picker_step (VariationPicker_initial vs) es"

text \<open>The picker renders one card per variation, so a click carries a member of \<open>vs\<close>.\<close>

definition rendered :: "MusicVariation list \<Rightarrow> picker_event \<Rightarrow> bool" where
  "rendered vs e = (case e of Click v \<Rightarrow> v \<in> set vs | _ \<Rightarrow> True)"

section \<open>Sample values\<close>

definition clip :: File where
  "clip = \<lparr>file_name = ''clip.mp4'', file_type = ''video/mp4'', file_size = 10485760\<rparr>"

definition sample_createObjectURL :: "File \<Rightarrow> string" where
  "sample_createObjectURL f = ''blob:'' @ file_name f"

definition sample_analysis :: VideoAnalysis where
  "sample_analysis =
     \<lparr>analysis_bpm = 128, key = ''C minor'', overall_mood = ''tense'',
      energy_arc = ''rising'',
      audio_profile = \<lparr>has_speech = True, has_ambient_sound = False, is_silent = False,
                        recommended_mix = ''duck'', mix_reasoning = ''speech''\<rparr>,
      segments = [\<lparr>start_seconds = 0, end_seconds = 12, energy = ''high'', mood = ''tense'',
                   visual_description = ''chase'', musical_suggestion = ''drums''\<rparr>],
      style_suggestions = [\<lparr>label = ''Cinematic'', modifier = ''orchestral''\<rparr>],
      primary_prompt = ''dark synth'', negative_prompt = ''vocals'',
      reasoning = ''fast cuts''\<rparr>"

definition track :: "string \<Rightarrow> string \<Rightarrow> MusicVariation" where
  "track i l =
     \<lparr>file_id = i, audio_url = ''/api/music/'' @ i @ ''/stream'', style_label = l,
      duration_seconds = 12\<rparr>"

definition sample_variations :: "MusicVariation list" where
  "sample_variations = [track ''a1'' ''Original'', track ''b2'' ''Lo-fi'', track ''c3'' ''Epic'']"

text \<open>The page in the edit step, after \<open>clip\<close> has been analysed.\<close>

definition sample_edit :: Home where
  "sample_edit =
     initial_Home\<lparr>step := Edit, videoFile := Some clip, videoUrl := ''blob:clip.mp4'',
       analysis := Some sample_analysis, prompt := ''dark synth'', negativePrompt := ''vocals'',
       bpm := 140\<rparr>"

text \<open>The page in the pick step, with three variations generated.\<close>

definition sample_pick :: Home where
  "sample_pick = sample_edit\<lparr>step := Pick, variations := sample_variations, credits := Some 2\<rparr>"

definition edge_clip :: File where
  "edge_clip =
     \<lparr>file_name = ''edge.avi'', file_type = ''video/x-msvideo'', file_size = 52428800\<rparr>"

definition long_clip :: File where
  "long_clip = \<lparr>file_name = ''long.webm'', file_type = ''video/webm'', file_size = 2097152\<rparr>"

definition pdf_file :: File where
  "pdf_file = \<lparr>file_name = ''scan.pdf'', file_type = ''application/pdf'', file_size = 4096\<rparr>"

text \<open>A recording whose container gives no length: its duration reads \<open>+Infinity\<close>.\<close>

definition live_clip :: File where
  "live_clip = \<lparr>file_name = ''live.webm'', file_type = ''video/webm'', file_size = 1048576\<rparr>"

text \<open>What the metadata probe reads from the sample files; it reads nothing from others.\<close>

definition sample_probe :: "File \<Rightarrow> real number option" where
  "sample_probe f =
     (if file_name f = ''clip.mp4'' then Some (Finite 12)
      else if file_name f = ''edge.avi'' then Some (Finite 30)
      else if file_name f = ''long.webm'' then Some (Finite (91 / 2))
      else if file_name f = ''live.webm'' then Some Infinity
      else None)"

text \<open>
  A stand-in for the printing of whole numbers above \<open>2^53\<close>; no sample gets there.
\<close>

definition sample_beyond :: "int \<Rightarrow> string" where
  "sample_beyond i = ''1e+21''"

definition sample_events :: "picker_event list" where
  "sample_events = [Mount, Click (track ''b2'' ''Lo-fi''), Ended, Click (track ''c3'' ''Epic'')]"

section \<open>The invariant of the picker\<close>

text \<open>
  The selection is empty or the identifier of a variation on display, and a variation
  that is playing is the selected one.
\<close>

definition picker_inv :: "MusicVariation list \<Rightarrow> VariationPicker \<Rightarrow> bool" where
  "picker_inv vs p =
     ((selected p = [] \<or> selected p \<in> file_id ` set vs) \<and>
      (case playing p of None \<Rightarrow> True | Some i \<Rightarrow> selected p = i))"

section \<open>Failures of the credits calls\<close>

text \<open>
  C3, as the code has it. For every identity token and every response that is not 2xx,
  whatever its body, \<open>getCredits\<close> and \<open>initializeCredits\<close> resolve to zero and do not
  throw.
\<close>

theorem credits_zero_on_non_ok:
  "snd (getCredits userToken (Not_ok_response b)) = Inr 0 \<and>
   snd (initializeCredits userToken (Not_ok_response b)) = Inr 0"
  by (simp add: getCredits_def initializeCredits_def)

text \<open>
  The other two failure modes are not turned into zero: with no \<open>catch\<close> around
  \<open>fetch\<close> and \<open>res.json()\<close>, a network exception and an unparsable body of a 2xx
  response reject the promise.
\<close>

theorem credits_throw_counterexample:
  "snd (getCredits ''anonymous'' (Rejected ''Failed to fetch''))
     = Inl (Error ''Failed to fetch'') \<and>
   snd (getCredits ''anonymous'' (Ok_response (Inl ''Unexpected end of JSON input'')))
     = Inl (Error ''Unexpected end of JSON input'') \<and>
   snd (initializeCredits ''anonymous'' (Rejected ''Failed to fetch''))
     = Inl (Error ''Failed to fetch'') \<and>
   snd (initializeCredits ''anonymous'' (Ok_response (Inl ''Unexpected end of JSON input'')))
     = Inl (Error ''Unexpected end of JSON input'')"
  by (simp add: getCredits_def initializeCredits_def)

section \<open>The upload intent\<close>

text \<open>
  C2, as the code has it. For every upload intent whose analyze call rejects, the
  controller records the error message and returns the step to upload. The video file
  and the preview URL, stored before the call, stay those of the uploaded file; the
  analysis, the prompt, the negative prompt, the BPM, the variation sequence, the
  selection, the merged export URL and the credits are what they were before the intent.
  The analyze request is the only one issued.
\<close>

theorem handleUpload_failure:
  assumes "snd (analyzeVideo file userId ares) = Inl e"
  shows "handleUpload createObjectURL userId ares file (h, net) =
           (h\<lparr>videoFile := Some file, videoUrl := createObjectURL file,
              error := message_of e ''Analysis failed'', step := Upload\<rparr>,
            net @ [fst (analyzeVideo file userId ares)])"
proof -
  obtain req r where g: "analyzeVideo file userId ares = (req, r)"
    by (cases "analyzeVideo file userId ares")
  with assms have r: "r = Inl e" by simp
  show ?thesis using g r by (simp add: handleUpload_def)
qed

text \<open>
  A failed analysis of a second clip, from the pick step: the server answers with a body
  that does not parse.
\<close>

theorem handleUpload_failure_witness:
  "snd (analyzeVideo edge_clip ''anonymous'' (Not_ok_response (Inl ''Unexpected token'')))
     = Inl (Error ''Analysis failed'') \<and>
   fst (handleUpload sample_createObjectURL ''anonymous''
          (Not_ok_response (Inl ''Unexpected token'')) edge_clip (sample_pick, [])) =
     sample_pick\<lparr>videoFile := Some edge_clip, videoUrl := ''blob:edge.avi'',
       error := ''Analysis failed'', step := Upload\<rparr>"
proof -
  have f: "snd (analyzeVideo edge_clip ''anonymous'' (Not_ok_response (Inl ''Unexpected token'')))
             = Inl (Error ''Analysis failed'')"
    by (simp add: analyzeVideo_def error_of_body_def detail_or_def)
  have u: "sample_createObjectURL edge_clip = ''blob:edge.avi''"
    by (simp add: sample_createObjectURL_def edge_clip_def)
  show ?thesis
    using f handleUpload_failure [OF f, of sample_createObjectURL sample_pick "[]"]
    by (simp add: message_of_def u)
qed

text \<open>
  The first upload of a session fails on the network: the file and its preview URL are
  stored all the same, where there were none before the intent.
\<close>

theorem handleUpload_failure_counterexample:
  "videoFile (fst (handleUpload sample_createObjectURL ''anonymous''
                     (Rejected ''Failed to fetch'') clip (initial_Home, []))) = Some clip \<and>
   videoFile initial_Home = None \<and>
   videoUrl (fst (handleUpload sample_createObjectURL ''anonymous''
                    (Rejected ''Failed to fetch'') clip (initial_Home, []))) = ''blob:clip.mp4'' \<and>
   videoUrl initial_Home = ''''"
  by (simp add: handleUpload_def analyzeVideo_def initial_Home_def sample_createObjectURL_def
      clip_def)

section \<open>The generate intent\<close>

text \<open>
  C1. For every generate call that fails (the call rejects with \<open>e\<close>), the controller
  state after the failure is the state before the call with the error message recorded
  and the step at edit: the prompt, the negative prompt, the BPM, the variation sequence,
  the analysis, the video file and the selection are unchanged. The generate request is
  the only one issued.
\<close>

theorem handleGenerate_failure:
  assumes "analysis h = Some a"
    and "snd (generateVariations (prompt h) (negativePrompt h) (overall_mood a) (bpm h) userId
               (style_suggestions a) gres) = Inl e"
  shows "handleGenerate userId gres cres (h, net) =
           (h\<lparr>error := message_of e ''Generation failed'', step := Edit\<rparr>,
            net @ [fst (generateVariations (prompt h) (negativePrompt h) (overall_mood a) (bpm h)
                         userId (style_suggestions a) gres)])"
proof -
  obtain req r where g: "generateVariations (prompt h) (negativePrompt h) (overall_mood a) (bpm h)
      userId (style_suggestions a) gres = (req, r)"
    by (cases "generateVariations (prompt h) (negativePrompt h) (overall_mood a) (bpm h)
      userId (style_suggestions a) gres")
  with assms(2) have r: "r = Inl e" by simp
  show ?thesis using assms(1) g r by (simp add: handleGenerate_def)
qed

theorem handleGenerate_failure_witness:
  "analysis sample_edit = Some sample_analysis \<and>
   handleGenerate ''anonymous'' (Not_ok_response (Inr (Some ''No credits left'')))
       (Ok_response (Inr 2)) (sample_edit, []) =
     (sample_edit\<lparr>error := ''No credits left''\<rparr>,
      [\<lparr>path = ''/api/music/generate-variations'', http_method = ''POST'',
        headers = [(''Content-Type'', ''application/json''), (''x-user-id'', ''anonymous'')],
        body = GenerateJson ''dark synth'' ''vocals'' ''tense'' 140
                 [\<lparr>label = ''Cinematic'', modifier = ''orchestral''\<rparr>]\<rparr>])"
proof -
  have a: "analysis sample_edit = Some sample_analysis"
    by (simp add: sample_edit_def initial_Home_def)
  have f: "snd (generateVariations (prompt sample_edit) (negativePrompt sample_edit)
                 (overall_mood sample_analysis) (bpm sample_edit) ''anonymous''
                 (style_suggestions sample_analysis)
                 (Not_ok_response (Inr (Some ''No credits left''))))
             = Inl (Error ''No credits left'')"
    by (simp add: generateVariations_def error_of_body_def detail_or_def)
  show ?thesis
    using a handleGenerate_failure [OF a f, of "Ok_response (Inr 2)" "[]"]
    by (simp add: generateVariations_def message_of_def sample_edit_def initial_Home_def
        sample_analysis_def)
qed

text \<open>
  C4, as the code has it. For every generate call that resolves, when the credits
  refresh that follows gets a response that is not 2xx, the failure is not surfaced: the
  error message is empty, the balance reads zero, and the controller enters pick with the
  variation sequence stored.
\<close>

theorem handleGenerate_refresh_non_ok:
  assumes "analysis h = Some a"
  shows "handleGenerate userId (Ok_response (Inr result)) (Not_ok_response b) (h, net) =
           (h\<lparr>error := '''', variations := result_variations result, credits := Some 0,
              step := Pick\<rparr>,
            net @ [fst (generateVariations (prompt h) (negativePrompt h) (overall_mood a) (bpm h)
                         userId (style_suggestions a) (Ok_response (Inr result))),
                   fst (getCredits userId (Not_ok_response b))])"
  using assms
  by (simp add: handleGenerate_def generateVariations_def refreshCredits_def getCredits_def)

theorem handleGenerate_refresh_non_ok_witness:
  "analysis sample_edit = Some sample_analysis \<and>
   fst (handleGenerate ''anonymous'' (Ok_response (Inr \<lparr>result_variations = sample_variations\<rparr>))
          (Not_ok_response (Inr None)) (sample_edit, [])) =
     sample_edit\<lparr>variations := sample_variations, credits := Some 0, step := Pick\<rparr> \<and>
   map path (snd (handleGenerate ''anonymous''
                    (Ok_response (Inr \<lparr>result_variations = sample_variations\<rparr>))
                    (Not_ok_response (Inr None)) (sample_edit, []))) =
     [''/api/music/generate-variations'', ''/api/credits/balance'']"
proof -
  have a: "analysis sample_edit = Some sample_analysis"
    by (simp add: sample_edit_def initial_Home_def)
  have e: "error sample_edit = ''''"
    by (simp add: sample_edit_def initial_Home_def)
  show ?thesis
    using a e handleGenerate_refresh_non_ok [OF a, of "''anonymous''"
        "\<lparr>result_variations = sample_variations\<rparr>" "Inr None" "[]"]
    by (simp add: generateVariations_def getCredits_def)
qed

text \<open>
  The refresh is awaited inside the \<open>try\<close> of the generate intent, so a refresh that
  rejects is caught there: after a generate call that resolved, a network exception of
  the credits call puts its message in the error banner and the step back to edit.
\<close>

theorem handleGenerate_refresh_rejected_counterexample:
  "step (fst (handleGenerate ''anonymous''
                (Ok_response (Inr \<lparr>result_variations = sample_variations\<rparr>))
                (Rejected ''Failed to fetch'') (sample_edit, []))) = Edit \<and>
   error (fst (handleGenerate ''anonymous''
                 (Ok_response (Inr \<lparr>result_variations = sample_variations\<rparr>))
                 (Rejected ''Failed to fetch'') (sample_edit, []))) = ''Failed to fetch''"
  by (simp add: handleGenerate_def generateVariations_def refreshCredits_def getCredits_def
      sample_edit_def initial_Home_def message_of_def)

section \<open>The pick intent\<close>

text \<open>
  C9. For every pick intent with a video file and an analysis in the state, the
  controller issues one request, the merge: a POST of the stored video, the chosen
  variation's file identifier, the mix mode \<open>social\<close> and the analysis's segment
  sequence, with no header at all, so no \<open>x-user-id\<close>. When the merge resolves, the
  recorded \<open>selectedVariation\<close> is the chosen variation, the merged URL is the response's
  and the step is done.
\<close>

theorem handlePickVariation_merge:
  assumes "videoFile h = Some vf" and "analysis h = Some a"
  shows "snd (handlePickVariation mres variation (h, net)) =
           net @ [\<lparr>path = ''/api/music/merge'', http_method = ''POST'', headers = [],
                   body = FormData [(''video'', FileField vf),
                                    (''file_id'', TextField (file_id variation)),
                                    (''mix_mode'', TextField ''social''),
                                    (''segments_json'', SegmentsJson (segments a))]\<rparr>] \<and>
         (\<forall>result. mres = Ok_response (Inr result) \<longrightarrow>
            fst (handlePickVariation mres variation (h, net)) =
              h\<lparr>error := '''', selectedVariation := Some variation,
                 mergedVideoUrl := video_url result, step := Done\<rparr>)"
  using assms by (simp add: handlePickVariation_def mergeVideoAudio_def Let_def)

text \<open>Three variations on offer, the second one picked.\<close>

theorem handlePickVariation_merge_witness:
  "videoFile sample_pick = Some clip \<and> analysis sample_pick = Some sample_analysis \<and>
   sample_variations ! 1 = track ''b2'' ''Lo-fi'' \<and>
   snd (handlePickVariation
          (Ok_response (Inr \<lparr>video_url = ''/files/out.mp4'', merged_duration_seconds = 12\<rparr>))
          (track ''b2'' ''Lo-fi'') (sample_pick, [])) =
     [\<lparr>path = ''/api/music/merge'', http_method = ''POST'', headers = [],
       body = FormData [(''video'', FileField clip), (''file_id'', TextField ''b2''),
                        (''mix_mode'', TextField ''social''),
                        (''segments_json'', SegmentsJson (segments sample_analysis))]\<rparr>] \<and>
   selectedVariation (fst (handlePickVariation
          (Ok_response (Inr \<lparr>video_url = ''/files/out.mp4'', merged_duration_seconds = 12\<rparr>))
          (track ''b2'' ''Lo-fi'') (sample_pick, []))) = Some (track ''b2'' ''Lo-fi'') \<and>
   step (fst (handlePickVariation
          (Ok_response (Inr \<lparr>video_url = ''/files/out.mp4'', merged_duration_seconds = 12\<rparr>))
          (track ''b2'' ''Lo-fi'') (sample_pick, []))) = Done"
proof -
  have v: "videoFile sample_pick = Some clip"
    by (simp add: sample_pick_def sample_edit_def initial_Home_def)
  have a: "analysis sample_pick = Some sample_analysis"
    by (simp add: sample_pick_def sample_edit_def initial_Home_def)
  have s: "sample_variations ! 1 = track ''b2'' ''Lo-fi''"
    by (simp add: sample_variations_def)
  have i: "file_id (track ''b2'' ''Lo-fi'') = ''b2''"
    by (simp add: track_def)
  show ?thesis
    using v a s handlePickVariation_merge [OF v a,
        of "Ok_response (Inr \<lparr>video_url = ''/files/out.mp4'', merged_duration_seconds = 12\<rparr>)"
           "track ''b2'' ''Lo-fi''" "[]"]
    by (simp add: i)
qed

section \<open>Reset\<close>

text \<open>
  C5. From any controller state, at any step, the reset intent clears the video file, the
  preview URL, the analysis, the prompt and the negative prompt, puts the BPM back to 120,
  empties the variation sequence, clears the selection, the merged export URL and the
  error message, and sets the step to upload. The credits balance is the one value it
  keeps, and it issues no request.
\<close>

theorem handleReset_clears:
  "handleReset (h, net) =
     (\<lparr>step = Upload, videoFile = None, videoUrl = '''', analysis = None, prompt = '''',
       negativePrompt = '''', bpm = 120, variations = [], selectedVariation = None,
       mergedVideoUrl = '''', error = '''', credits = credits h\<rparr>, net)"
  by (cases h) (simp add: handleReset_def)

section \<open>The upload validator\<close>

lemma validate_passes:
  assumes "file_type file \<in> set ALLOWED_TYPES" and "file_size file \<le> 50 * 1024 * 1024"
  shows "validate file = None"
proof -
  from assms(2) have "real (file_size file) \<le> 50 * 1024 * 1024"
    by (metis of_nat_le_iff of_nat_mult of_nat_numeral)
  then have "\<not> real (file_size file) / (1024 * 1024) > real MAX_SIZE_MB"
    by (simp add: MAX_SIZE_MB_def)
  with assms(1) show ?thesis
    by (simp add: validate_def)
qed

subsection \<open>What \<open>decimal\<close> prints\<close>

text \<open>
  \<open>decimal n\<close> is the one string of digits, without a leading zero, that reads back as
  \<open>n\<close>.
\<close>

lemma below_ten:
  assumes "d < (10::nat)"
  shows "d = 0 \<or> d = 1 \<or> d = 2 \<or> d = 3 \<or> d = 4 \<or> d = 5 \<or> d = 6 \<or> d = 7 \<or> d = 8 \<or> d = 9"
  using assms by arith

lemma digit_value_digit: "d < 10 \<Longrightarrow> digit_value (digit d) = d"
  by (drule below_ten) (auto simp add: digit_def digit_value_def)

lemma digit_is_digit: "d < 10 \<Longrightarrow> digit d \<in> set ''0123456789''"
  by (drule below_ten) (auto simp add: digit_def)

lemma digit_nonzero: "0 < d \<Longrightarrow> d < 10 \<Longrightarrow> digit d \<noteq> CHR ''0''"
  by (drule below_ten) (auto simp add: digit_def)

lemma decimal_value_snoc: "decimal_value (s @ [c]) = 10 * decimal_value s + digit_value c"
  by (simp add: decimal_value_def)

lemma decimal_value_decimal: "decimal_value (decimal n) = n"
proof (induction n rule: decimal.induct)
  case (1 n)
  show ?case
  proof (cases "n < 10")
    case True
    then show ?thesis
      by (simp add: decimal.simps [of n] decimal_value_def digit_value_digit)
  next
    case False
    with "1" have "decimal_value (decimal (n div 10)) = n div 10"
      by simp
    with False show ?thesis
      by (simp add: decimal.simps [of n] decimal_value_snoc digit_value_digit)
  qed
qed

lemma decimal_digits: "set (decimal n) \<subseteq> set ''0123456789''"
proof (induction n rule: decimal.induct)
  case (1 n)
  show ?case
  proof (cases "n < 10")
    case True
    then show ?thesis
      using digit_is_digit [of n] by (simp add: decimal.simps [of n])
  next
    case False
    with "1" have "set (decimal (n div 10)) \<subseteq> set ''0123456789''"
      by simp
    with False show ?thesis
      using digit_is_digit [of "n mod 10"] by (simp add: decimal.simps [of n])
  qed
qed

lemma decimal_nonempty: "decimal n \<noteq> []"
  by (subst decimal.simps) simp

lemma decimal_no_leading_zero: "0 < n \<Longrightarrow> hd (decimal n) \<noteq> CHR ''0''"
proof (induction n rule: decimal.induct)
  case (1 n)
  show ?case
  proof (cases "n < 10")
    case True
    with "1.prems" show ?thesis
      by (simp add: decimal.simps [of n] digit_nonzero)
  next
    case False
    then have "0 < n div 10"
      by simp
    with "1.IH" False have "hd (decimal (n div 10)) \<noteq> CHR ''0''"
      by simp
    with False show ?thesis
      by (simp add: decimal.simps [of n] decimal_nonempty)
  qed
qed

lemma decimal_MAX_DURATION_S: "decimal MAX_DURATION_S = ''30''"
  by (simp add: MAX_DURATION_S_def decimal.simps digit_def)

lemma decimal_MAX_SIZE_MB: "decimal MAX_SIZE_MB = ''50''"
  by (simp add: MAX_SIZE_MB_def decimal.simps digit_def)

subsection \<open>What the template literal prints for a rounded duration\<close>

lemma number_to_string_whole:
  assumes "0 \<le> i" and "i \<le> 2 ^ 53"
  shows "number_to_string beyond (Finite i) = decimal (nat i)"
  using assms by (simp add: number_to_string_def)

lemma Math_round_Finite:
  "Math_round (Finite d) = Finite (floor (d + 1 / 2)) \<and>
   real_of_int (floor (d + 1 / 2)) \<le> d + 1 / 2 \<and>
   d + 1 / 2 < real_of_int (floor (d + 1 / 2)) + 1"
  by (simp add: Math_round_def)

lemma rounded_in_range:
  assumes "30 < (d::real)" and "d \<le> 2 ^ 53"
  shows "0 < floor (d + 1 / 2) \<and> floor (d + 1 / 2) \<le> 2 ^ 53"
proof
  from assms(1) have "(1::real) \<le> d + 1 / 2"
    by simp
  then have "1 \<le> floor (d + 1 / 2)"
    by (simp add: le_floor_iff)
  then show "0 < floor (d + 1 / 2)"
    by simp
next
  from assms(2) have "d + 1 / 2 < real_of_int (2 ^ 53) + 1"
    by simp
  then show "floor (d + 1 / 2) \<le> 2 ^ 53"
    by (simp only: floor_le_iff)
qed

lemma rounded_printed:
  assumes "0 < r" and "r \<le> 2 ^ 53"
  shows "int (decimal_value (number_to_string beyond (Finite r))) = r \<and>
         set (number_to_string beyond (Finite r)) \<subseteq> set ''0123456789'' \<and>
         hd (number_to_string beyond (Finite r)) \<noteq> CHR ''0''"
proof -
  from assms have p: "number_to_string beyond (Finite r) = decimal (nat r)"
    by (simp add: number_to_string_whole)
  from assms(1) have n: "0 < nat r"
    by simp
  from assms(1) have "int (decimal_value (decimal (nat r))) = r"
    by (simp add: decimal_value_decimal)
  with p decimal_digits [of "nat r"] decimal_no_leading_zero [OF n] show ?thesis
    by simp
qed

text \<open>
  C6. For every file whose MIME type is in the allowed set, whose size is at most 50 MB
  (\<open>50 * 1024 * 1024\<close> bytes, the bound included) and whose probed duration is at most
  30 s (the bound included), validation passes, no validation error is shown, and the
  upload callback is invoked once with that file. With the page's upload intent as the
  callback, one request is issued: the analyze call for that file.
\<close>

theorem handleFile_valid_uploads_once:
  assumes "file_type file \<in> set ALLOWED_TYPES"
    and "file_size file \<le> 50 * 1024 * 1024"
    and "probe file = Some (Finite d)"
    and "d \<le> 30"
  shows "validate file = None \<and>
         handleFile beyond onUpload probe file (u, w) =
           (u\<lparr>validationError := ''''\<rparr>, onUpload file w) \<and>
         snd (snd (handleFile beyond (handleUpload createObjectURL userId ares) probe file
                     (u, (h, net)))) =
           net @ [\<lparr>path = ''/api/video/analyze'', http_method = ''POST'',
                   headers = [(''x-user-id'', userId)],
                   body = FormData [(''file'', FileField file)]\<rparr>]"
proof -
  have v: "validate file = None"
    using assms(1,2) by (rule validate_passes)
  have hf: "handleFile beyond f probe file (u, w') = (u\<lparr>validationError := ''''\<rparr>, f file w')"
    for f and w' :: 'b
    using v assms(3,4)
    by (simp add: handleFile_def checkDuration_def onloadedmetadata_def greater_def
        MAX_DURATION_S_def)
  have up: "snd (handleUpload createObjectURL userId ares file (h, net)) =
              net @ [\<lparr>path = ''/api/video/analyze'', http_method = ''POST'',
                      headers = [(''x-user-id'', userId)],
                      body = FormData [(''file'', FileField file)]\<rparr>]"
    by (simp add: handleUpload_def analyzeVideo_def Let_def)
  show ?thesis
    using v hf [of onUpload w] hf [of "handleUpload createObjectURL userId ares" "(h, net)"] up
    by simp
qed

text \<open>A file on both bounds: 52428800 bytes, 30 seconds.\<close>

theorem handleFile_valid_uploads_once_witness:
  "file_type edge_clip \<in> set ALLOWED_TYPES \<and>
   file_size edge_clip = 50 * 1024 * 1024 \<and>
   sample_probe edge_clip = Some (Finite 30) \<and>
   validate edge_clip = None \<and>
   snd (snd (handleFile sample_beyond
               (handleUpload sample_createObjectURL ''anonymous'' (Rejected ''Failed to fetch''))
               sample_probe edge_clip
               (\<lparr>dragging = False, validationError = ''old''\<rparr>, (initial_Home, [])))) =
     [\<lparr>path = ''/api/video/analyze'', http_method = ''POST'',
       headers = [(''x-user-id'', ''anonymous'')],
       body = FormData [(''file'', FileField edge_clip)]\<rparr>]"
proof -
  have t: "file_type edge_clip \<in> set ALLOWED_TYPES"
    by (simp add: edge_clip_def ALLOWED_TYPES_def)
  have s: "file_size edge_clip = 50 * 1024 * 1024"
    by (simp add: edge_clip_def)
  then have s': "file_size edge_clip \<le> 50 * 1024 * 1024"
    by simp
  have p: "sample_probe edge_clip = Some (Finite 30)"
    by (simp add: sample_probe_def edge_clip_def)
  have d: "(30::real) \<le> 30"
    by simp
  note once =
    handleFile_valid_uploads_once [of edge_clip sample_probe 30 sample_beyond
      "handleUpload sample_createObjectURL ''anonymous'' (Rejected ''Failed to fetch'')"
      "\<lparr>dragging = False, validationError = ''old''\<rparr>" "(initial_Home, [])"
      sample_createObjectURL "''anonymous''" "Rejected ''Failed to fetch''" initial_Home "[]",
      OF t s' p d]
  from once have v: "validate edge_clip = None"
    by (rule conjunct1)
  from once [THEN conjunct2, THEN conjunct2]
  have r: "snd (snd (handleFile sample_beyond
                       (handleUpload sample_createObjectURL ''anonymous''
                          (Rejected ''Failed to fetch''))
                       sample_probe edge_clip
                       (\<lparr>dragging = False, validationError = ''old''\<rparr>, (initial_Home, [])))) =
             [\<lparr>path = ''/api/video/analyze'', http_method = ''POST'',
               headers = [(''x-user-id'', ''anonymous'')],
               body = FormData [(''file'', FileField edge_clip)]\<rparr>]"
    by simp
  from t s p v r show ?thesis
    by blast
qed

text \<open>
  C7. For every file whose MIME type is outside the allowed set, validation rejects and
  the reason shown names the allowed formats. Neither the size nor the duration is looked
  at, and the upload callback is not invoked: whatever the callback and the probe, the
  state behind the callback (the page and the requests issued) is left as it was.
\<close>

theorem handleFile_unsupported_type:
  assumes "file_type file \<notin> set ALLOWED_TYPES"
  shows "validate file = Some ''Unsupported format. Use MP4, MOV, WebM, or AVI.'' \<and>
         handleFile beyond onUpload probe file (u, w) =
           (u\<lparr>validationError := ''Unsupported format. Use MP4, MOV, WebM, or AVI.''\<rparr>, w)"
  using assms by (simp add: validate_def handleFile_def)

theorem handleFile_unsupported_type_witness:
  "file_type pdf_file \<notin> set ALLOWED_TYPES \<and>
   handleFile sample_beyond
       (handleUpload sample_createObjectURL ''anonymous'' (Rejected ''Failed to fetch''))
       sample_probe pdf_file (\<lparr>dragging = False, validationError = ''''\<rparr>, (initial_Home, [])) =
     (\<lparr>dragging = False,
       validationError = ''Unsupported format. Use MP4, MOV, WebM, or AVI.''\<rparr>,
      (initial_Home, []))"
proof -
  have t: "file_type pdf_file \<notin> set ALLOWED_TYPES"
    by (simp add: pdf_file_def ALLOWED_TYPES_def)
  from t handleFile_unsupported_type [OF t, of sample_beyond
      "handleUpload sample_createObjectURL ''anonymous'' (Rejected ''Failed to fetch'')"
      sample_probe "\<lparr>dragging = False, validationError = ''''\<rparr>" "(initial_Home, [])"]
  show ?thesis
    by simp
qed

text \<open>
  C8. For every file that passes the type and size checks and whose probed duration is
  above 30 s (a finite number of seconds above 30, or \<open>+Infinity\<close>), validation rejects
  with the message \<open>Video is Ns. Maximum is 30s.\<close> and the upload callback is not invoked:
  the state behind the callback is left as it was. \<open>N\<close> is what the template literal
  prints for \<open>Math.round\<close> of the duration:
  \<^item> for a finite duration \<open>d\<close>, \<open>Math.round\<close> gives the whole number \<open>r\<close> with
    \<open>r \<le> d + 1/2 < r + 1\<close>, the nearest one, a tie going up;
  \<^item> for \<open>d\<close> up to \<open>2^53\<close>, \<open>N\<close> is the decimal numeral of \<open>r\<close>: digits only, no
    leading zero, reading back as \<open>r\<close>;
  \<^item> above \<open>2^53\<close>, \<open>N\<close> is whatever the language prints for \<open>r\<close>;
  \<^item> for \<open>+Infinity\<close>, \<open>N\<close> is \<open>Infinity\<close>.
\<close>

theorem handleFile_too_long:
  assumes "file_type file \<in> set ALLOWED_TYPES"
    and "file_size file \<le> 50 * 1024 * 1024"
    and "probe file = Some dur"
    and "dur = Infinity \<or> (\<exists>d. dur = Finite d \<and> 30 < d)"
  shows "handleFile beyond onUpload probe file (u, w) =
           (u\<lparr>validationError :=
                ''Video is '' @ number_to_string beyond (Math_round dur)
                  @ ''s. Maximum is 30s.''\<rparr>, w) \<and>
         (dur = Infinity \<longrightarrow> number_to_string beyond (Math_round dur) = ''Infinity'') \<and>
         (\<forall>d. dur = Finite d \<longrightarrow>
            (\<exists>r. Math_round dur = Finite r \<and>
                 real_of_int r \<le> d + 1 / 2 \<and> d + 1 / 2 < real_of_int r + 1 \<and>
                 (d \<le> 2 ^ 53 \<longrightarrow>
                    int (decimal_value (number_to_string beyond (Finite r))) = r \<and>
                    set (number_to_string beyond (Finite r)) \<subseteq> set ''0123456789'' \<and>
                    hd (number_to_string beyond (Finite r)) \<noteq> CHR ''0'')))"
proof (intro conjI allI impI)
  have v: "validate file = None"
    using assms(1,2) by (rule validate_passes)
  have g: "greater dur (real MAX_DURATION_S)"
    using assms(4) by (auto simp add: greater_def MAX_DURATION_S_def)
  show "handleFile beyond onUpload probe file (u, w) =
           (u\<lparr>validationError :=
                ''Video is '' @ number_to_string beyond (Math_round dur)
                  @ ''s. Maximum is 30s.''\<rparr>, w)"
    using v assms(3) g
    by (simp add: handleFile_def checkDuration_def onloadedmetadata_def decimal_MAX_DURATION_S)
next
  assume "dur = Infinity"
  then show "number_to_string beyond (Math_round dur) = ''Infinity''"
    by (simp add: Math_round_def number_to_string_def)
next
  fix d
  assume f: "dur = Finite d"
  with assms(4) have long: "30 < d"
    by simp
  let ?r = "floor (d + 1 / 2)"
  have "d \<le> 2 ^ 53 \<longrightarrow>
          int (decimal_value (number_to_string beyond (Finite ?r))) = ?r \<and>
          set (number_to_string beyond (Finite ?r)) \<subseteq> set ''0123456789'' \<and>
          hd (number_to_string beyond (Finite ?r)) \<noteq> CHR ''0''"
  proof
    assume "d \<le> 2 ^ 53"
    with long have rng: "0 < ?r \<and> ?r \<le> 2 ^ 53"
      by (rule rounded_in_range)
    from rng [THEN conjunct1] rng [THEN conjunct2] show "int (decimal_value (number_to_string beyond (Finite ?r))) = ?r \<and>
          set (number_to_string beyond (Finite ?r)) \<subseteq> set ''0123456789'' \<and>
          hd (number_to_string beyond (Finite ?r)) \<noteq> CHR ''0''"
      by (rule rounded_printed)
  qed
  with f Math_round_Finite [of d]
  show "\<exists>r. Math_round dur = Finite r \<and>
             real_of_int r \<le> d + 1 / 2 \<and> d + 1 / 2 < real_of_int r + 1 \<and>
             (d \<le> 2 ^ 53 \<longrightarrow>
                int (decimal_value (number_to_string beyond (Finite r))) = r \<and>
                set (number_to_string beyond (Finite r)) \<subseteq> set ''0123456789'' \<and>
                hd (number_to_string beyond (Finite r)) \<noteq> CHR ''0'')"
    by blast
qed

text \<open>
  A clip of 45.5 seconds, where the tie rounds up, and a recording of unbounded length.
\<close>

theorem handleFile_too_long_witness:
  "file_type long_clip \<in> set ALLOWED_TYPES \<and>
   file_size long_clip \<le> 50 * 1024 * 1024 \<and>
   sample_probe long_clip = Some (Finite (91 / 2)) \<and>
   handleFile sample_beyond
       (handleUpload sample_createObjectURL ''anonymous'' (Rejected ''Failed to fetch''))
       sample_probe long_clip (\<lparr>dragging = False, validationError = ''''\<rparr>, (initial_Home, [])) =
     (\<lparr>dragging = False, validationError = ''Video is 46s. Maximum is 30s.''\<rparr>,
      (initial_Home, [])) \<and>
   file_type live_clip \<in> set ALLOWED_TYPES \<and>
   file_size live_clip \<le> 50 * 1024 * 1024 \<and>
   sample_probe live_clip = Some Infinity \<and>
   handleFile sample_beyond
       (handleUpload sample_createObjectURL ''anonymous'' (Rejected ''Failed to fetch''))
       sample_probe live_clip (\<lparr>dragging = False, validationError = ''''\<rparr>, (initial_Home, [])) =
     (\<lparr>dragging = False, validationError = ''Video is Infinitys. Maximum is 30s.''\<rparr>,
      (initial_Home, []))"
proof -
  have t: "file_type long_clip \<in> set ALLOWED_TYPES"
    by (simp add: long_clip_def ALLOWED_TYPES_def)
  have s: "file_size long_clip \<le> 50 * 1024 * 1024"
    by (simp add: long_clip_def)
  have p: "sample_probe long_clip = Some (Finite (91 / 2))"
    by (simp add: sample_probe_def long_clip_def)
  have d: "Finite (91 / 2 :: real) = Infinity \<or>
           (\<exists>d. Finite (91 / 2 :: real) = Finite d \<and> 30 < d)"
    by (intro disjI2 exI [of _ "91 / 2"]) simp
  have n: "number_to_string sample_beyond (Math_round (Finite (91 / 2))) = ''46''"
    by (simp add: number_to_string_def Math_round_def decimal.simps digit_def)
  from handleFile_too_long [of long_clip sample_probe "Finite (91 / 2)" sample_beyond
      "handleUpload sample_createObjectURL ''anonymous'' (Rejected ''Failed to fetch'')"
      "\<lparr>dragging = False, validationError = ''''\<rparr>" "(initial_Home, [])", OF t s p d,
      THEN conjunct1]
  have a: "handleFile sample_beyond
       (handleUpload sample_createObjectURL ''anonymous'' (Rejected ''Failed to fetch''))
       sample_probe long_clip (\<lparr>dragging = False, validationError = ''''\<rparr>, (initial_Home, [])) =
     (\<lparr>dragging = False, validationError = ''Video is 46s. Maximum is 30s.''\<rparr>,
      (initial_Home, []))"
    by (simp add: n)
  have t': "file_type live_clip \<in> set ALLOWED_TYPES"
    by (simp add: live_clip_def ALLOWED_TYPES_def)
  have s': "file_size live_clip \<le> 50 * 1024 * 1024"
    by (simp add: live_clip_def)
  have p': "sample_probe live_clip = Some Infinity"
    by (simp add: sample_probe_def live_clip_def)
  have d': "(Infinity :: real number) = Infinity \<or>
            (\<exists>d. (Infinity :: real number) = Finite d \<and> 30 < d)"
    by simp
  note live = handleFile_too_long [of live_clip sample_probe Infinity sample_beyond
      "handleUpload sample_createObjectURL ''anonymous'' (Rejected ''Failed to fetch'')"
      "\<lparr>dragging = False, validationError = ''''\<rparr>" "(initial_Home, [])", OF t' s' p' d']
  from live [THEN conjunct2, THEN conjunct1]
  have i: "number_to_string sample_beyond (Math_round Infinity) = ''Infinity''"
    by simp
  from live [THEN conjunct1]
  have b: "handleFile sample_beyond
       (handleUpload sample_createObjectURL ''anonymous'' (Rejected ''Failed to fetch''))
       sample_probe live_clip (\<lparr>dragging = False, validationError = ''''\<rparr>, (initial_Home, [])) =
     (\<lparr>dragging = False, validationError = ''Video is Infinitys. Maximum is 30s.''\<rparr>,
      (initial_Home, []))"
    by (simp add: i)
  from t s p a t' s' p' b show ?thesis
    by blast
qed

section \<open>The variation picker\<close>

lemma picker_inv_initial: "picker_inv vs (VariationPicker_initial vs)"
  by (cases vs) (simp_all add: picker_inv_def VariationPicker_initial_def)

lemma picker_inv_step:
  assumes "picker_inv vs p" and "rendered vs e"
  shows "picker_inv vs (picker_step p e)"
proof (cases e)
  case Mount
  with assms(1) show ?thesis
    by (simp add: picker_step_def mounted_def picker_inv_def split: option.splits)
next
  case (Click v)
  with assms(2) have "v \<in> set vs"
    by (simp add: rendered_def)
  with assms(1) Click show ?thesis
    by (auto simp add: picker_step_def togglePlay_def picker_inv_def split: option.splits)
next
  case Ended
  with assms(1) show ?thesis
    by (simp add: picker_step_def onEnded_def picker_inv_def split: option.splits)
qed

lemma picker_inv_foldl:
  "picker_inv vs p \<Longrightarrow> list_all (rendered vs) es \<Longrightarrow> picker_inv vs (foldl picker_step p es)"
  by (induction es arbitrary: p) (simp_all add: picker_inv_step)

lemma picker_inv_run: "list_all (rendered vs) es \<Longrightarrow> picker_inv vs (picker_run vs es)"
  unfolding picker_run_def by (rule picker_inv_foldl [OF picker_inv_initial])

lemma togglePlay_selects:
  assumes "picker_inv vs p" and "audioRef p \<noteq> None"
  shows "selected (togglePlay v p) = file_id v"
  using assms by (auto simp add: togglePlay_def picker_inv_def split: option.splits)

lemma find_member: "find P xs = Some x \<Longrightarrow> x \<in> set xs \<and> P x"
  by (induction xs) (auto split: if_splits)

lemma handleSelect_cases:
  "handleSelect onPick vs (p, w) = (p, w) \<or>
   (\<exists>v \<in> set vs. file_id v = selected p \<and> handleSelect onPick vs (p, w) = (p, onPick v w))"
proof (cases "find (\<lambda>v. file_id v = selected p) vs")
  case None
  then show ?thesis by (simp add: handleSelect_def)
next
  case (Some v)
  then have "v \<in> set vs \<and> file_id v = selected p"
    by (rule find_member)
  with Some show ?thesis by (auto simp add: handleSelect_def)
qed

text \<open>
  C10. In a picker mounted with the variations \<open>vs\<close>, after any sequence of its events
  (clicks being on the cards of members of \<open>vs\<close>):
  \<^item> the selection starts as the first variation's file identifier, the empty string when
    there is none;
  \<^item> the selection is the empty string or the file identifier of a member of \<open>vs\<close>;
  \<^item> once the audio element is mounted, play-toggling a variation leaves it selected;
  \<^item> the confirm action does nothing, or invokes \<open>onPick\<close> once with a member of \<open>vs\<close>
    whose file identifier is the current selection;
  \<^item> with no variation, the confirm action does nothing.
\<close>

theorem picker_selection:
  assumes "list_all (rendered vs) es"
  shows "selected (VariationPicker_initial vs) = (case vs of [] \<Rightarrow> '''' | v # _ \<Rightarrow> file_id v) \<and>
         (selected (picker_run vs es) = '''' \<or> selected (picker_run vs es) \<in> file_id ` set vs) \<and>
         (audioRef (picker_run vs es) \<noteq> None \<longrightarrow>
            selected (togglePlay v (picker_run vs es)) = file_id v) \<and>
         (handleSelect onPick vs (p, w) = (p, w) \<or>
          (\<exists>v' \<in> set vs. file_id v' = selected p \<and>
             handleSelect onPick vs (p, w) = (p, onPick v' w))) \<and>
         handleSelect onPick [] (p, w) = (p, w)"
proof -
  have i: "picker_inv vs (picker_run vs es)"
    using assms by (rule picker_inv_run)
  have a: "selected (VariationPicker_initial vs) = (case vs of [] \<Rightarrow> '''' | v # _ \<Rightarrow> file_id v)"
    by (cases vs) (simp_all add: VariationPicker_initial_def)
  have b: "selected (picker_run vs es) = '''' \<or> selected (picker_run vs es) \<in> file_id ` set vs"
    using i by (simp add: picker_inv_def)
  have c: "audioRef (picker_run vs es) \<noteq> None \<longrightarrow>
            selected (togglePlay v (picker_run vs es)) = file_id v"
    using i by (simp add: togglePlay_selects)
  have e: "handleSelect onPick [] (p, w) = (p, w)"
    by (simp add: handleSelect_def)
  from a b c handleSelect_cases [of onPick vs p w] e show ?thesis
    by blast
qed

text \<open>
  The second card is played to its end, then the third is clicked and confirmed; the
  merge it starts fails on the network.
\<close>

theorem picker_selection_witness:
  "list_all (rendered sample_variations) sample_events \<and>
   selected (VariationPicker_initial sample_variations) = ''a1'' \<and>
   selected (picker_run sample_variations sample_events) = ''c3'' \<and>
   selected (togglePlay (track ''a1'' ''Original'')
               (picker_run sample_variations sample_events)) = ''a1'' \<and>
   handleSelect (handlePickVariation (Rejected ''Failed to fetch'')) sample_variations
       (picker_run sample_variations sample_events, (sample_pick, [])) =
     (picker_run sample_variations sample_events,
      handlePickVariation (Rejected ''Failed to fetch'') (track ''c3'' ''Epic'') (sample_pick, []))"
proof -
  have r: "list_all (rendered sample_variations) sample_events"
    by (simp add: rendered_def sample_variations_def sample_events_def)
  have m: "audioRef (picker_run sample_variations sample_events) \<noteq> None"
    by (simp add: picker_run_def sample_events_def picker_step_def mounted_def togglePlay_def
        onEnded_def VariationPicker_initial_def sample_variations_def track_def)
  have s: "selected (picker_run sample_variations sample_events) = ''c3''"
    by (simp add: picker_run_def sample_events_def picker_step_def mounted_def togglePlay_def
        onEnded_def VariationPicker_initial_def sample_variations_def track_def)
  have fd: "find (\<lambda>v. file_id v = selected (picker_run sample_variations sample_events))
              sample_variations = Some (track ''c3'' ''Epic'')"
    unfolding s by (simp add: sample_variations_def track_def)
  have f: "handleSelect (handlePickVariation (Rejected ''Failed to fetch'')) sample_variations
       (picker_run sample_variations sample_events, (sample_pick, [])) =
     (picker_run sample_variations sample_events,
      handlePickVariation (Rejected ''Failed to fetch'') (track ''c3'' ''Epic'') (sample_pick, []))"
    by (simp add: handleSelect_def fd)
  have i: "selected (VariationPicker_initial sample_variations) = ''a1''"
    by (simp add: VariationPicker_initial_def sample_variations_def track_def)
  have t: "selected (togglePlay (track ''a1'' ''Original'')
             (picker_run sample_variations sample_events)) = ''a1''"
    using m picker_selection [OF r, of "track ''a1'' ''Original''"
        "handlePickVariation (Rejected ''Failed to fetch'')"
        "picker_run sample_variations sample_events" "(sample_pick, [])"]
    by (simp add: track_def)
  from r i s t f show ?thesis
    by blast
qed

end
